theory Spec2Isabelle
  imports Complex_Main "HOL-Library.Multiset"
begin

section \<open>Data model (models.py, schemas.py)\<close>

text \<open>
  The three ORM classes of \<^verbatim>\<open>models.py\<close> are records, one field per column. The field
  names carry a prefix, because \<^verbatim>\<open>id\<close> is a constant of HOL and the three classes share
  column names: \<^verbatim>\<open>Transaction.type\<close> is \<open>txn_type\<close>, \<^verbatim>\<open>Category.owner_id\<close> is
  \<open>cat_owner_id\<close>, and so on. \<^verbatim>\<open>Integer\<close> columns are \<open>int\<close>, \<^verbatim>\<open>String\<close> columns are
  \<open>string\<close>. The \<^verbatim>\<open>Float\<close> column \<^verbatim>\<open>amount\<close> is an exact \<open>real\<close>: rounding of
  floating-point sums is outside this model. What is proved of a total after a create is
  therefore stated on the amounts that are summed, not on the rounded sum.
\<close>

record user =
  usr_id :: int
  usr_email :: string
  usr_hashed_password :: string

record transaction =
  txn_id :: int
  txn_title :: string
  txn_amount :: real
  txn_type :: string
  txn_category_id :: int
  txn_owner_id :: int

record category =
  cat_id :: int
  cat_name :: string
  cat_owner_id :: int

text \<open>
  The request schemas of \<^verbatim>\<open>schemas.py\<close>. \<^verbatim>\<open>TransactionCreate\<close> has the four fields of
  \<^verbatim>\<open>TransactionBase\<close> and nothing else: there is no owner field in the payload.
  \<^verbatim>\<open>type\<close> is declared \<^verbatim>\<open>str\<close> with the default \<^verbatim>\<open>"expense"\<close>.
\<close>

record transaction_create =
  tc_title :: string
  tc_amount :: real
  tc_type :: string
  tc_category_id :: int

record category_create =
  cc_name :: string

record user_create =
  uc_email :: string
  uc_password :: string

definition TransactionCreate ::
  "string \<Rightarrow> real \<Rightarrow> string option \<Rightarrow> int \<Rightarrow> transaction_create" where
  "TransactionCreate title amount type category_id =
     \<lparr>tc_title = title, tc_amount = amount,
      tc_type = (case type of None \<Rightarrow> ''expense'' | Some s \<Rightarrow> s),
      tc_category_id = category_id\<rparr>"

text \<open>
  The database behind a \<^verbatim>\<open>Session\<close>: three tables, each a list of rows in insertion
  order. Every operation of \<^verbatim>\<open>crud.py\<close> commits before it returns, so an operation is a
  function from the tables to its result and the new tables.
\<close>

record session =
  users :: "user list"
  categories :: "category list"
  transactions :: "transaction list"

definition empty_session :: session where
  "empty_session = \<lparr>users = [], categories = [], transactions = []\<rparr>"

text \<open>
  \<^verbatim>\<open>id = Column(Integer, primary_key=True)\<close>: the table store assigns the key on insert.
  It is one more than the largest key in the table (1 in an empty table), which is what
  SQLite does for an integer primary key.
\<close>

definition next_id :: "int list \<Rightarrow> int" where
  "next_id ids = foldr max ids 0 + 1"

definition primary_keys :: "session \<Rightarrow> bool" where
  "primary_keys db \<longleftrightarrow>
     distinct (map usr_id (users db)) \<and>
     distinct (map cat_id (categories db)) \<and>
     distinct (map txn_id (transactions db))"

datatype http_error = HTTPException int string

text \<open>
  \<^verbatim>\<open>db.commit()\<close> hands the new transaction row to the table store, which may refuse it
  and raise: an integer too large for the column, a foreign key that refers to no row.
  Which store runs behind the session is decided outside these sources, so the store's
  answer to an inserted transaction row is a parameter: the exception raised, or \<open>None\<close>
  when the row is accepted. \<^verbatim>\<open>crud.py\<close> makes no check of its own. A refused commit is
  modelled for the insert of a transaction; the commits of the other operations are
  taken to succeed.
\<close>

datatype db_error = OverflowError | IntegrityError

type_synonym store = "session \<Rightarrow> transaction \<Rightarrow> db_error option"

section \<open>Repository operations (crud.py)\<close>

definition get_user_by_email :: "session \<Rightarrow> string \<Rightarrow> user option" where
  "get_user_by_email db email = find (\<lambda>u. usr_email u = email) (users db)"

definition create_user :: "session \<Rightarrow> user_create \<Rightarrow> string \<Rightarrow> user \<times> session" where
  "create_user db user hashed_password =
     (let db_user = \<lparr>usr_id = next_id (map usr_id (users db)),
                      usr_email = uc_email user,
                      usr_hashed_password = hashed_password\<rparr>
      in (db_user, db\<lparr>users := users db @ [db_user]\<rparr>))"

text \<open>
  \<^verbatim>\<open>models.Transaction(**transaction.dict(), owner_id=user_id)\<close>, with the key the store
  gives it.
\<close>

definition new_transaction :: "session \<Rightarrow> transaction_create \<Rightarrow> int \<Rightarrow> transaction" where
  "new_transaction db transaction user_id =
     \<lparr>txn_id = next_id (map txn_id (transactions db)),
      txn_title = tc_title transaction,
      txn_amount = tc_amount transaction,
      txn_type = tc_type transaction,
      txn_category_id = tc_category_id transaction,
      txn_owner_id = user_id\<rparr>"

text \<open>
  When the commit raises, the exception leaves \<open>create_transaction\<close> and nothing is
  stored: the result is the error and the tables as they were.
\<close>

definition create_transaction ::
  "store \<Rightarrow> session \<Rightarrow> transaction_create \<Rightarrow> int \<Rightarrow> (db_error + transaction) \<times> session" where
  "create_transaction store db transaction user_id =
     (let db_transaction = new_transaction db transaction user_id
      in case store db db_transaction of
           Some e \<Rightarrow> (Inl e, db)
         | None \<Rightarrow>
             (Inr db_transaction, db\<lparr>transactions := transactions db @ [db_transaction]\<rparr>))"

definition get_transaction :: "session \<Rightarrow> int \<Rightarrow> int \<Rightarrow> transaction option" where
  "get_transaction db transaction_id user_id =
     find (\<lambda>t. txn_id t = transaction_id \<and> txn_owner_id t = user_id) (transactions db)"

text \<open>
  \<^verbatim>\<open>setattr\<close> over the four keys of the payload, then commit: the row with the primary
  key of the object found is rewritten in place.
\<close>

definition update_transaction ::
  "session \<Rightarrow> int \<Rightarrow> transaction_create \<Rightarrow> int \<Rightarrow> transaction option \<times> session" where
  "update_transaction db transaction_id transaction user_id =
     (case get_transaction db transaction_id user_id of
        None \<Rightarrow> (None, db)
      | Some db_transaction \<Rightarrow>
          (let updated = db_transaction\<lparr>txn_title := tc_title transaction,
                                        txn_amount := tc_amount transaction,
                                        txn_type := tc_type transaction,
                                        txn_category_id := tc_category_id transaction\<rparr>
           in (Some updated,
               db\<lparr>transactions :=
                    map (\<lambda>r. if txn_id r = txn_id db_transaction then updated else r)
                        (transactions db)\<rparr>)))"

definition delete_transaction ::
  "session \<Rightarrow> int \<Rightarrow> int \<Rightarrow> transaction option \<times> session" where
  "delete_transaction db transaction_id user_id =
     (case get_transaction db transaction_id user_id of
        None \<Rightarrow> (None, db)
      | Some db_transaction \<Rightarrow>
          (Some db_transaction,
           db\<lparr>transactions :=
                filter (\<lambda>r. txn_id r \<noteq> txn_id db_transaction) (transactions db)\<rparr>))"

definition create_category ::
  "session \<Rightarrow> category_create \<Rightarrow> int \<Rightarrow> category \<times> session" where
  "create_category db category user_id =
     (let db_category = \<lparr>cat_id = next_id (map cat_id (categories db)),
                          cat_name = cc_name category,
                          cat_owner_id = user_id\<rparr>
      in (db_category, db\<lparr>categories := categories db @ [db_category]\<rparr>))"

definition get_category :: "session \<Rightarrow> int \<Rightarrow> int \<Rightarrow> category option" where
  "get_category db category_id user_id =
     find (\<lambda>c. cat_id c = category_id \<and> cat_owner_id c = user_id) (categories db)"

text \<open>
  The report query, clause by clause: \<^verbatim>\<open>categories JOIN transactions ON
  Category.id == Transaction.category_id\<close>, the two \<^verbatim>\<open>filter\<close> calls, \<^verbatim>\<open>group_by
  (Category.name)\<close>, and one output row \<^verbatim>\<open>(name, sum(amount))\<close> per group. SQL leaves the
  order of the groups open; here it is the order \<open>remdups\<close> gives the names.
\<close>

definition joined :: "session \<Rightarrow> (category \<times> transaction) list" where
  "joined db =
     concat (map (\<lambda>c. map (\<lambda>t. (c, t))
                         (filter (\<lambda>t. cat_id c = txn_category_id t) (transactions db)))
                 (categories db))"

definition expense_rows :: "session \<Rightarrow> int \<Rightarrow> (category \<times> transaction) list" where
  "expense_rows db user_id =
     filter (\<lambda>(c, t). txn_type t = ''expense'')
       (filter (\<lambda>(c, t). txn_owner_id t = user_id) (joined db))"

definition get_spending_by_category :: "session \<Rightarrow> int \<Rightarrow> (string \<times> real) list" where
  "get_spending_by_category db user_id =
     (let rows = expense_rows db user_id
      in map (\<lambda>n. (n, sum_list (map (\<lambda>(c, t). txn_amount t)
                                     (filter (\<lambda>(c, t). cat_name c = n) rows))))
             (remdups (map (\<lambda>(c, t). cat_name c) rows)))"

text \<open>
  The amounts that \<^verbatim>\<open>func.sum\<close> adds up for the group of the name \<open>n\<close>: the operand of the
  sum in the definition above.
\<close>

definition summed_amounts :: "session \<Rightarrow> int \<Rightarrow> string \<Rightarrow> real list" where
  "summed_amounts db user_id n =
     map (\<lambda>(c, t). txn_amount t)
       (filter (\<lambda>(c, t). cat_name c = n) (expense_rows db user_id))"

section \<open>Request handlers (main.py)\<close>

text \<open>
  The handlers take the authenticated user as \<open>current_user\<close>, as the source does through
  \<^verbatim>\<open>Depends(auth.get_current_user)\<close>; \<^verbatim>\<open>auth.get_password_hash\<close> is a parameter too. The
  handlers of \<^verbatim>\<open>main.py\<close> that share a name with a function of \<^verbatim>\<open>crud.py\<close> are prefixed
  \<open>api_\<close>. A raised \<^verbatim>\<open>HTTPException\<close> is the \<open>Inl\<close> result.
\<close>

definition api_create_user ::
  "(string \<Rightarrow> string) \<Rightarrow> session \<Rightarrow> user_create \<Rightarrow> (http_error + user) \<times> session" where
  "api_create_user get_password_hash db user =
     (case get_user_by_email db (uc_email user) of
        Some db_user \<Rightarrow> (Inl (HTTPException 400 ''Email already registered''), db)
      | None \<Rightarrow>
          (let hashed_password = get_password_hash (uc_password user);
               (db_user, db') = create_user db user hashed_password
           in (Inr db_user, db')))"

definition api_create_transaction ::
  "store \<Rightarrow> session \<Rightarrow> transaction_create \<Rightarrow> user \<Rightarrow> (db_error + transaction) \<times> session" where
  "api_create_transaction store db transaction current_user =
     create_transaction store db transaction (usr_id current_user)"

definition read_transaction :: "session \<Rightarrow> int \<Rightarrow> user \<Rightarrow> http_error + transaction" where
  "read_transaction db transaction_id current_user =
     (case get_transaction db transaction_id (usr_id current_user) of
        None \<Rightarrow> Inl (HTTPException 404 ''Transaction not found'')
      | Some db_transaction \<Rightarrow> Inr db_transaction)"

definition api_update_transaction ::
  "session \<Rightarrow> int \<Rightarrow> transaction_create \<Rightarrow> user \<Rightarrow> transaction option \<times> session" where
  "api_update_transaction db transaction_id transaction current_user =
     update_transaction db transaction_id transaction (usr_id current_user)"

definition api_delete_transaction ::
  "session \<Rightarrow> int \<Rightarrow> user \<Rightarrow> transaction option \<times> session" where
  "api_delete_transaction db transaction_id current_user =
     delete_transaction db transaction_id (usr_id current_user)"

definition api_create_category ::
  "session \<Rightarrow> category_create \<Rightarrow> user \<Rightarrow> category \<times> session" where
  "api_create_category db category current_user =
     create_category db category (usr_id current_user)"

definition get_spending_report :: "session \<Rightarrow> user \<Rightarrow> (string \<times> real) list" where
  "get_spending_report db current_user =
     get_spending_by_category db (usr_id current_user)"

section \<open>The report, as the specification words it\<close>

text \<open>
  The reference aggregation: inner-join Transaction to Category on the category id, keep
  the rows owned by \<open>owner_id\<close> whose kind is expense, group by category name, sum the
  amount of each group. A name with no row has no total.
\<close>

definition reference_join :: "session \<Rightarrow> (transaction \<times> category) list" where
  "reference_join db =
     [(t, c). t \<leftarrow> transactions db, c \<leftarrow> categories db, txn_category_id t = cat_id c]"

definition reference_rows :: "session \<Rightarrow> int \<Rightarrow> (transaction \<times> category) list" where
  "reference_rows db owner_id =
     filter (\<lambda>(t, c). txn_owner_id t = owner_id \<and> txn_type t = ''expense'') (reference_join db)"

definition reference_aggregation :: "session \<Rightarrow> int \<Rightarrow> string \<Rightarrow> real option" where
  "reference_aggregation db owner_id n =
     (let group = filter (\<lambda>(t, c). cat_name c = n) (reference_rows db owner_id)
      in if group = [] then None else Some (sum_list (map (\<lambda>(t, c). txn_amount t) group)))"

section \<open>Reading the report\<close>

text \<open>
  Whether some expense transaction of an owner refers to a category.
\<close>

definition expense_references :: "session \<Rightarrow> int \<Rightarrow> category \<Rightarrow> bool" where
  "expense_references db owner_id c \<longleftrightarrow>
     list_ex (\<lambda>t. txn_owner_id t = owner_id \<and> txn_type t = ''expense'' \<and>
                  txn_category_id t = cat_id c) (transactions db)"

section \<open>Auxiliary definitions\<close>

text \<open>
  The contribution of the pair of a category and a transaction to the total reported to
  \<open>uid\<close> under the name \<open>n\<close>.
\<close>

definition cell :: "int \<Rightarrow> string \<Rightarrow> category \<Rightarrow> transaction \<Rightarrow> real" where
  "cell uid n c t =
     (if cat_id c = txn_category_id t \<and> txn_owner_id t = uid \<and>
         txn_type t = ''expense'' \<and> cat_name c = n
      then txn_amount t else 0)"

section \<open>Example data\<close>

text \<open>
  Two stores. The first refuses an integer outside the signed 64-bit range and checks
  nothing else, as SQLite does unless foreign keys are switched on. The second also
  refuses a category id that no category has.
\<close>

definition int64 :: "int \<Rightarrow> bool" where
  "int64 x \<longleftrightarrow> - (2 ^ 63) \<le> x \<and> x < 2 ^ 63"

definition int64_store :: store where
  "int64_store db t =
     (if int64 (txn_category_id t) \<and> int64 (txn_owner_id t) then None
      else Some OverflowError)"

definition foreign_key_store :: store where
  "foreign_key_store db t =
     (if \<not> (int64 (txn_category_id t) \<and> int64 (txn_owner_id t)) then Some OverflowError
      else if txn_category_id t \<in> set (map cat_id (categories db)) then None
      else Some IntegrityError)"

text \<open>
  Two registered users with a category each; Alice has an expense and an income under her
  category, Bob an expense under his.
\<close>

definition alice :: user where
  "alice = \<lparr>usr_id = 1, usr_email = ''alice@example.com'', usr_hashed_password = ''$2b$alice''\<rparr>"

definition bob :: user where
  "bob = \<lparr>usr_id = 2, usr_email = ''bob@example.com'', usr_hashed_password = ''$2b$bob''\<rparr>"

definition coffee :: transaction where
  "coffee = \<lparr>txn_id = 1, txn_title = ''Coffee'', txn_amount = 9 / 2, txn_type = ''expense'',
             txn_category_id = 1, txn_owner_id = 1\<rparr>"

definition salary :: transaction where
  "salary = \<lparr>txn_id = 2, txn_title = ''Salary'', txn_amount = 1000, txn_type = ''income'',
             txn_category_id = 1, txn_owner_id = 1\<rparr>"

definition flat :: transaction where
  "flat = \<lparr>txn_id = 3, txn_title = ''Flat'', txn_amount = 700, txn_type = ''expense'',
           txn_category_id = 2, txn_owner_id = 2\<rparr>"

definition food :: category where
  "food = \<lparr>cat_id = 1, cat_name = ''Food'', cat_owner_id = 1\<rparr>"

definition rent :: category where
  "rent = \<lparr>cat_id = 2, cat_name = ''Rent'', cat_owner_id = 2\<rparr>"

definition ledger :: session where
  "ledger = \<lparr>users = [alice, bob], categories = [food, rent],
             transactions = [coffee, salary, flat]\<rparr>"

text \<open>
  One user with two categories of the same name, and one expense under the second.
\<close>

definition groceries :: category where
  "groceries = \<lparr>cat_id = 1, cat_name = ''Food'', cat_owner_id = 1\<rparr>"

definition restaurants :: category where
  "restaurants = \<lparr>cat_id = 2, cat_name = ''Food'', cat_owner_id = 1\<rparr>"

definition lunch :: transaction where
  "lunch = \<lparr>txn_id = 1, txn_title = ''Lunch'', txn_amount = 12, txn_type = ''expense'',
            txn_category_id = 2, txn_owner_id = 1\<rparr>"

definition pantry :: session where
  "pantry = \<lparr>users = [alice], categories = [groceries, restaurants], transactions = [lunch]\<rparr>"

section \<open>Primary keys\<close>

lemma next_id_above: "x \<in> set ids \<Longrightarrow> x < next_id ids"
  by (induction ids) (auto simp: next_id_def)

lemma next_id_fresh: "next_id ids \<notin> set ids"
  using next_id_above [of "next_id ids" ids] by auto

lemma primary_keys_empty: "primary_keys empty_session"
  by (simp add: primary_keys_def empty_session_def)

lemma primary_keys_create_user:
  "primary_keys db \<Longrightarrow> primary_keys (snd (create_user db u h))"
  using next_id_fresh [of "map usr_id (users db)"]
  by (simp add: primary_keys_def create_user_def Let_def)

lemma primary_keys_create_category:
  "primary_keys db \<Longrightarrow> primary_keys (snd (create_category db c uid))"
  using next_id_fresh [of "map cat_id (categories db)"]
  by (simp add: primary_keys_def create_category_def Let_def)

lemma primary_keys_create_transaction:
  "primary_keys db \<Longrightarrow> primary_keys (snd (create_transaction store db p uid))"
  using next_id_fresh [of "map txn_id (transactions db)"]
  by (simp add: primary_keys_def create_transaction_def new_transaction_def Let_def
      split: option.split)

lemma primary_keys_update_transaction:
  "primary_keys db \<Longrightarrow> primary_keys (snd (update_transaction db tid p uid))"
proof (cases "get_transaction db tid uid")
  case None
  then show "primary_keys db \<Longrightarrow> ?thesis"
    by (simp add: update_transaction_def)
next
  case (Some t)
  have "map txn_id (map (\<lambda>r. if txn_id r = txn_id t then t\<lparr>txn_title := a, txn_amount := b,
          txn_type := c, txn_category_id := d\<rparr> else r) ts) = map txn_id ts" for a b c d ts
    by (induction ts) auto
  then show "primary_keys db \<Longrightarrow> ?thesis"
    by (simp add: update_transaction_def Some primary_keys_def Let_def del: map_map)
qed

lemma primary_keys_delete_transaction:
  "primary_keys db \<Longrightarrow> primary_keys (snd (delete_transaction db tid uid))"
  by (cases "get_transaction db tid uid")
    (simp_all add: delete_transaction_def primary_keys_def distinct_map_filter)

section \<open>The report query\<close>

lemma set_expense_rows:
  "set (expense_rows db uid) =
     {(c, t). c \<in> set (categories db) \<and> t \<in> set (transactions db) \<and>
              cat_id c = txn_category_id t \<and> txn_owner_id t = uid \<and>
              txn_type t = ''expense''}"
  by (auto simp: expense_rows_def joined_def)

lemma expense_rows_concat:
  "expense_rows db uid =
     concat (map (\<lambda>c. map (Pair c)
                    (filter (\<lambda>t. cat_id c = txn_category_id t \<and> txn_owner_id t = uid \<and>
                                 txn_type t = ''expense'') (transactions db)))
                 (categories db))"
  by (simp add: expense_rows_def joined_def filter_concat filter_map comp_def conj_ac)

lemma map_of_tabulate:
  "map_of (map (\<lambda>n. (n, f n)) ns) n = (if n \<in> set ns then Some (f n) else None)"
  by (induction ns) auto

lemma sum_list_concat_map:
  fixes xss :: "real list list"
  shows "sum_list (concat xss) = sum_list (map sum_list xss)"
  by (induction xss) auto

lemma group_sum_double:
  "sum_list (map (\<lambda>(c, t). txn_amount t)
       (filter (\<lambda>(c, t). cat_name c = n) (expense_rows db uid))) =
   (\<Sum>c\<leftarrow>categories db. \<Sum>t\<leftarrow>transactions db. cell uid n c t)"
proof -
  have inner: "sum_list (map (\<lambda>(c, t). txn_amount t)
       (filter (\<lambda>(c, t). cat_name c = n) (map (Pair c)
                    (filter (\<lambda>t. cat_id c = txn_category_id t \<and> txn_owner_id t = uid \<and>
                                 txn_type t = ''expense'') ts)))) = (\<Sum>t\<leftarrow>ts. cell uid n c t)" for c ts
    by (induction ts) (auto simp: cell_def)
  show ?thesis
    unfolding expense_rows_concat
    by (simp add: filter_concat map_concat sum_list_concat_map comp_def inner)
qed

lemma sum_list_interchange:
  fixes f :: "'a \<Rightarrow> 'b \<Rightarrow> real"
  shows "(\<Sum>x\<leftarrow>xs. \<Sum>y\<leftarrow>ys. f x y) = (\<Sum>y\<leftarrow>ys. \<Sum>x\<leftarrow>xs. f x y)"
  by (induction xs) (simp_all add: sum_list_addf)

lemma set_reference_rows:
  "set (reference_rows db uid) =
     {(t, c). c \<in> set (categories db) \<and> t \<in> set (transactions db) \<and>
              cat_id c = txn_category_id t \<and> txn_owner_id t = uid \<and>
              txn_type t = ''expense''}"
  by (auto simp: reference_rows_def reference_join_def)

lemma reference_sum_double:
  "sum_list (map (\<lambda>(t, c). txn_amount t)
       (filter (\<lambda>(t, c). cat_name c = n) (reference_rows db uid))) =
   (\<Sum>t\<leftarrow>transactions db. \<Sum>c\<leftarrow>categories db. cell uid n c t)"
proof -
  have inner: "sum_list (map (\<lambda>(t, c). txn_amount t)
       (filter (\<lambda>(t, c). cat_name c = n)
          (filter (\<lambda>(t, c). txn_owner_id t = uid \<and> txn_type t = ''expense'')
             (concat (map (\<lambda>c. if txn_category_id t = cat_id c then [(t, c)] else []) cs))))) =
       (\<Sum>c\<leftarrow>cs. cell uid n c t)" for t cs
    by (induction cs) (auto simp: cell_def)
  have outer: "sum_list (map (\<lambda>(t, c). txn_amount t)
       (filter (\<lambda>(t, c). cat_name c = n)
          (filter (\<lambda>(t, c). txn_owner_id t = uid \<and> txn_type t = ''expense'')
             (concat (map (\<lambda>t. concat (map (\<lambda>c. if txn_category_id t = cat_id c then [(t, c)] else []) cs)) ts))))) =
       (\<Sum>t\<leftarrow>ts. \<Sum>c\<leftarrow>cs. cell uid n c t)" for ts cs
    by (induction ts) (simp_all add: inner del: filter_filter)
  show ?thesis
    unfolding reference_rows_def reference_join_def by (rule outer)
qed

lemma report_names:
  "set (map fst (get_spending_by_category db uid)) =
     (\<lambda>(c, t). cat_name c) ` set (expense_rows db uid)"
  by (simp add: get_spending_by_category_def Let_def comp_def)

lemma map_of_report:
  "map_of (get_spending_by_category db uid) n =
     (if n \<in> (\<lambda>(c, t). cat_name c) ` set (expense_rows db uid)
      then Some (\<Sum>c\<leftarrow>categories db. \<Sum>t\<leftarrow>transactions db. cell uid n c t)
      else None)"
  by (simp add: get_spending_by_category_def Let_def map_of_tabulate group_sum_double)

lemma distinct_report: "distinct (map fst (get_spending_by_category db uid))"
  by (simp add: get_spending_by_category_def Let_def comp_def)

text \<open>
  C2. For every owner, the rows of \<open>get_spending_by_category\<close> are the reference
  aggregation: one row per category name that has a joined expense row of the owner,
  carrying the sum of the amounts of that group, and no name twice.
\<close>

theorem spending_matches_reference:
  "distinct (map fst (get_spending_by_category db owner_id)) \<and>
   map_of (get_spending_by_category db owner_id) = reference_aggregation db owner_id"
proof
  show "distinct (map fst (get_spending_by_category db owner_id))"
    by (rule distinct_report)
  show "map_of (get_spending_by_category db owner_id) = reference_aggregation db owner_id"
  proof
    fix n
    have names: "n \<in> (\<lambda>(c, t). cat_name c) ` set (expense_rows db owner_id) \<longleftrightarrow>
          filter (\<lambda>(t, c). cat_name c = n) (reference_rows db owner_id) \<noteq> []"
      by (auto simp: filter_empty_conv set_expense_rows set_reference_rows)
    show "map_of (get_spending_by_category db owner_id) n = reference_aggregation db owner_id n"
      unfolding map_of_report reference_aggregation_def Let_def reference_sum_double names
      by (simp add: sum_list_interchange [of "\<lambda>c t. cell owner_id n c t"])
  qed
qed

section \<open>Ownership-scoped reads, updates and deletes\<close>

lemmas ledger_defs = ledger_def alice_def bob_def coffee_def salary_def flat_def food_def rent_def

text \<open>
  Both example sessions are what the handlers build from the empty database.
\<close>

lemma ledger_reachable:
  "ledger =
     (let h = (\<lambda>pw. ''$2b$'' @ pw);
          db = snd (api_create_user h empty_session
                 \<lparr>uc_email = ''alice@example.com'', uc_password = ''alice''\<rparr>);
          db = snd (api_create_user h db \<lparr>uc_email = ''bob@example.com'', uc_password = ''bob''\<rparr>);
          db = snd (api_create_category db \<lparr>cc_name = ''Food''\<rparr> alice);
          db = snd (api_create_category db \<lparr>cc_name = ''Rent''\<rparr> bob);
          db = snd (api_create_transaction int64_store db
                 (TransactionCreate ''Coffee'' (9 / 2) None 1) alice);
          db = snd (api_create_transaction int64_store db
                 (TransactionCreate ''Salary'' 1000 (Some ''income'') 1) alice)
      in snd (api_create_transaction int64_store db (TransactionCreate ''Flat'' 700 None 2) bob))"
  by (simp add: ledger_defs empty_session_def api_create_user_def get_user_by_email_def
      create_user_def api_create_category_def create_category_def api_create_transaction_def
      create_transaction_def new_transaction_def int64_store_def int64_def
      TransactionCreate_def next_id_def Let_def)

lemma pantry_reachable:
  "pantry =
     (let db = snd (api_create_user (\<lambda>pw. ''$2b$'' @ pw) empty_session
                 \<lparr>uc_email = ''alice@example.com'', uc_password = ''alice''\<rparr>);
          db = snd (api_create_category db \<lparr>cc_name = ''Food''\<rparr> alice);
          db = snd (api_create_category db \<lparr>cc_name = ''Food''\<rparr> alice)
      in snd (api_create_transaction int64_store db (TransactionCreate ''Lunch'' 12 None 2) alice))"
  by (simp add: pantry_def alice_def groceries_def restaurants_def lunch_def empty_session_def
      api_create_user_def get_user_by_email_def create_user_def api_create_category_def
      create_category_def api_create_transaction_def create_transaction_def
      new_transaction_def int64_store_def int64_def TransactionCreate_def next_id_def Let_def)

lemma primary_key_row:
  assumes "distinct (map txn_id ts)" and "t \<in> set ts" and "r \<in> set ts"
    and "txn_id r = txn_id t"
  shows "r = t"
  using assms by (meson distinct_map inj_on_def)

lemma get_transaction_owned:
  assumes "primary_keys db" and "t \<in> set (transactions db)"
  shows "get_transaction db (txn_id t) (txn_owner_id t) = Some t"
proof -
  have d: "distinct (map txn_id (transactions db))"
    using assms(1) by (simp add: primary_keys_def)
  have "find (\<lambda>r. txn_id r = txn_id t \<and> txn_owner_id r = txn_owner_id t) ts = Some t"
    if "distinct (map txn_id ts)" and "t \<in> set ts" for ts
    using that by (induction ts) (auto simp: rev_image_eqI)
  from this [OF d assms(2)] show ?thesis
    by (simp add: get_transaction_def)
qed

lemma get_transaction_foreign:
  assumes "primary_keys db" and "t \<in> set (transactions db)" and "txn_owner_id t \<noteq> uid"
  shows "get_transaction db (txn_id t) uid = None"
proof -
  have d: "distinct (map txn_id (transactions db))"
    using assms(1) by (simp add: primary_keys_def)
  have "\<not> (txn_id r = txn_id t \<and> txn_owner_id r = uid)" if "r \<in> set (transactions db)" for r
    using primary_key_row [OF d assms(2) that] assms(3) by auto
  then show ?thesis
    by (simp add: get_transaction_def find_None_iff)
qed

lemma get_transaction_absent:
  assumes "tid \<notin> set (map txn_id (transactions db))"
  shows "get_transaction db tid uid = None"
  using assms by (auto simp: get_transaction_def find_None_iff)


lemma remove_by_key:
  assumes "distinct (map txn_id ts)" and "t \<in> set ts"
  shows "filter (\<lambda>r. txn_id r \<noteq> txn_id t) ts = filter (\<lambda>r. r \<noteq> t) ts"
  using primary_key_row [OF assms] by (intro filter_cong) auto

text \<open>
  C1. Let a transaction be owned by user A, and let B be another user. With B's identity
  and the transaction's id, \<open>get_transaction\<close>, \<open>update_transaction\<close> and
  \<open>delete_transaction\<close> find nothing (\<open>None\<close>, which \<open>read_transaction\<close> turns into the
  404 response), exactly as they do for an id that no row has, and the tables are left as
  they were. The handlers of \<^verbatim>\<open>main.py\<close> for update and delete pass the \<open>None\<close> on.
\<close>

theorem foreign_transaction_not_found:
  assumes "primary_keys db" and "t \<in> set (transactions db)"
    and "txn_owner_id t = usr_id A" and "usr_id A \<noteq> usr_id B"
    and "absent \<notin> set (map txn_id (transactions db))"
  shows "get_transaction db (txn_id t) (usr_id B) = None \<and>
         get_transaction db absent (usr_id B) = None \<and>
         read_transaction db (txn_id t) B = Inl (HTTPException 404 ''Transaction not found'') \<and>
         read_transaction db absent B = Inl (HTTPException 404 ''Transaction not found'') \<and>
         update_transaction db (txn_id t) p (usr_id B) = (None, db) \<and>
         update_transaction db absent p (usr_id B) = (None, db) \<and>
         api_update_transaction db (txn_id t) p B = (None, db) \<and>
         api_update_transaction db absent p B = (None, db) \<and>
         delete_transaction db (txn_id t) (usr_id B) = (None, db) \<and>
         delete_transaction db absent (usr_id B) = (None, db) \<and>
         api_delete_transaction db (txn_id t) B = (None, db) \<and>
         api_delete_transaction db absent B = (None, db)"
proof -
  have foreign: "get_transaction db (txn_id t) (usr_id B) = None"
    using get_transaction_foreign [OF assms(1,2), of "usr_id B"] assms(3,4) by simp
  have missing: "get_transaction db absent (usr_id B) = None"
    using assms(5) by (rule get_transaction_absent)
  show ?thesis
    by (simp add: foreign missing read_transaction_def update_transaction_def
        delete_transaction_def api_update_transaction_def api_delete_transaction_def)
qed

theorem foreign_transaction_not_found_witness:
  "get_transaction ledger 1 2 = None \<and> get_transaction ledger 7 2 = None \<and>
   read_transaction ledger 1 bob = Inl (HTTPException 404 ''Transaction not found'') \<and>
   update_transaction ledger 1 (TransactionCreate ''Tea'' 3 None 2) 2 = (None, ledger) \<and>
   delete_transaction ledger 1 2 = (None, ledger) \<and>
   api_update_transaction ledger 7 (TransactionCreate ''Tea'' 3 None 2) bob = (None, ledger) \<and>
   api_delete_transaction ledger 1 bob = (None, ledger)"
proof -
  have pk: "primary_keys ledger"
    by (simp add: primary_keys_def ledger_defs)
  have mem: "coffee \<in> set (transactions ledger)"
    by (simp add: ledger_def)
  have own: "txn_owner_id coffee = usr_id alice"
    by (simp add: coffee_def alice_def)
  have ne: "usr_id alice \<noteq> usr_id bob"
    by (simp add: alice_def bob_def)
  have absent: "7 \<notin> set (map txn_id (transactions ledger))"
    by (simp add: ledger_defs)
  show ?thesis
    using foreign_transaction_not_found [OF pk mem own ne absent,
        of "TransactionCreate ''Tea'' 3 None 2"]
    by (simp add: coffee_def bob_def)
qed



text \<open>
  C9. For a transaction \<open>t\<close> owned by the caller, \<open>delete_transaction\<close> returns \<open>t\<close> as it
  was, removes it, and a following \<open>get_transaction\<close> with the same owner and id finds
  nothing. When no row has both the id and the caller as owner, \<open>delete_transaction\<close>
  returns \<open>None\<close> and changes nothing.
\<close>

theorem delete_returns_snapshot:
  assumes "primary_keys db"
  shows "(t \<in> set (transactions db) \<and> txn_id t = tid \<and> txn_owner_id t = uid \<longrightarrow>
            delete_transaction db tid uid =
              (Some t, db\<lparr>transactions := filter (\<lambda>r. r \<noteq> t) (transactions db)\<rparr>) \<and>
            get_transaction (snd (delete_transaction db tid uid)) tid uid = None) \<and>
         ((\<forall>r \<in> set (transactions db). \<not> (txn_id r = tid \<and> txn_owner_id r = uid)) \<longrightarrow>
            delete_transaction db tid uid = (None, db))"
proof (intro conjI impI)
  assume "\<forall>r \<in> set (transactions db). \<not> (txn_id r = tid \<and> txn_owner_id r = uid)"
  then have "get_transaction db tid uid = None"
    by (simp add: get_transaction_def find_None_iff)
  then show "delete_transaction db tid uid = (None, db)"
    by (simp add: delete_transaction_def)
next
  assume owned: "t \<in> set (transactions db) \<and> txn_id t = tid \<and> txn_owner_id t = uid"
  have d: "distinct (map txn_id (transactions db))"
    using assms by (simp add: primary_keys_def)
  have found: "get_transaction db tid uid = Some t"
    using get_transaction_owned [OF assms, of t] owned by auto
  from owned have mem: "t \<in> set (transactions db)"
    by simp
  show del: "delete_transaction db tid uid =
      (Some t, db\<lparr>transactions := filter (\<lambda>r. r \<noteq> t) (transactions db)\<rparr>)"
    by (simp add: delete_transaction_def found remove_by_key [OF d mem])
  have "\<not> (txn_id r = tid \<and> txn_owner_id r = uid)"
    if "r \<in> set (filter (\<lambda>r. r \<noteq> t) (transactions db))" for r
    using that primary_key_row [OF d, of t r] owned by auto
  then have "find (\<lambda>r. txn_id r = tid \<and> txn_owner_id r = uid)
               (filter (\<lambda>r. r \<noteq> t) (transactions db)) = None"
    unfolding find_None_iff by blast
  then show "get_transaction (snd (delete_transaction db tid uid)) tid uid = None"
    by (simp add: del get_transaction_def)
qed

theorem delete_returns_snapshot_witness:
  "delete_transaction ledger 1 1 = (Some coffee, ledger\<lparr>transactions := [salary, flat]\<rparr>) \<and>
   get_transaction (snd (delete_transaction ledger 1 1)) 1 1 = None \<and>
   delete_transaction ledger 3 1 = (None, ledger)"
proof -
  have pk: "primary_keys ledger"
    by (simp add: primary_keys_def ledger_defs)
  have owned: "coffee \<in> set (transactions ledger) \<and> txn_id coffee = 1 \<and> txn_owner_id coffee = 1"
    by (simp add: ledger_def coffee_def)
  have rows: "filter (\<lambda>r. r \<noteq> coffee) (transactions ledger) = [salary, flat]"
    by (simp add: ledger_def coffee_def salary_def flat_def)
  have foreign: "\<forall>r \<in> set (transactions ledger). \<not> (txn_id r = 3 \<and> txn_owner_id r = 1)"
    by (simp add: ledger_def coffee_def salary_def flat_def)
  have removed: "delete_transaction ledger 1 1 =
        (Some coffee, ledger\<lparr>transactions := [salary, flat]\<rparr>) \<and>
      get_transaction (snd (delete_transaction ledger 1 1)) 1 1 = None"
    using delete_returns_snapshot [OF pk, of coffee 1 1] owned unfolding rows by blast
  have refused: "delete_transaction ledger 3 1 = (None, ledger)"
    using delete_returns_snapshot [OF pk, of coffee 3 1] foreign by blast
  show ?thesis
    using removed refused by blast
qed

section \<open>Registration and creation\<close>

text \<open>
  C7. Registering an email that a row of the user table already has is answered with the
  error "Email already registered" (status 400), and the tables are unchanged: no row is
  created.
\<close>

theorem duplicate_email_rejected:
  assumes "u \<in> set (users db)" and "usr_email u = uc_email new"
  shows "api_create_user get_password_hash db new =
           (Inl (HTTPException 400 ''Email already registered''), db)"
proof -
  have "get_user_by_email db (uc_email new) \<noteq> None"
    using assms by (auto simp: get_user_by_email_def find_None_iff)
  then show ?thesis
    by (auto simp: api_create_user_def)
qed

theorem duplicate_email_rejected_witness:
  "api_create_user (\<lambda>pw. ''$2b$'' @ pw) ledger
      \<lparr>uc_email = ''bob@example.com'', uc_password = ''hunter2''\<rparr> =
     (Inl (HTTPException 400 ''Email already registered''), ledger) \<and>
   users ledger = [alice, bob]"
proof -
  have mem: "bob \<in> set (users ledger)"
    by (simp add: ledger_def)
  have em: "usr_email bob = uc_email \<lparr>uc_email = ''bob@example.com'', uc_password = ''hunter2''\<rparr>"
    by (simp add: bob_def)
  show ?thesis
    using duplicate_email_rejected [OF mem em, of "\<lambda>pw. ''$2b$'' @ pw"]
    by (simp add: ledger_def)
qed

lemma create_transaction_accepted:
  assumes "store db (new_transaction db p uid) = None"
  shows "create_transaction store db p uid =
           (Inr (new_transaction db p uid),
            db\<lparr>transactions := transactions db @ [new_transaction db p uid]\<rparr>)"
  using assms by (simp add: create_transaction_def Let_def)

lemma create_transaction_refused:
  assumes "store db (new_transaction db p uid) = Some e"
  shows "create_transaction store db p uid = (Inl e, db)"
  using assms by (simp add: create_transaction_def Let_def)

lemma create_transaction_Inr:
  assumes "create_transaction store db p uid = (Inr t, db')"
  shows "t = new_transaction db p uid \<and> db' = db\<lparr>transactions := transactions db @ [t]\<rparr> \<and>
         store db t = None"
  using assms by (auto simp: create_transaction_def Let_def split: option.splits)

lemmas store_eval = create_transaction_def new_transaction_def int64_store_def int64_def
  TransactionCreate_def next_id_def Let_def

text \<open>
  C6. The row that \<open>create_transaction\<close> builds has the identity the call was made with
  as its owner, whatever the payload holds: the payload has no owner field. The create
  returns that row exactly when the store accepts it, and then the row is appended to the
  transaction table; when the store refuses it, nothing is stored. \<open>create_category\<close>
  returns and appends a row whose owner is the identity of the call. Through the handlers
  that identity is the authenticated user's id.
\<close>

theorem create_stamps_owner:
  "txn_owner_id (new_transaction db p uid) = uid \<and>
   (fst (create_transaction store db p uid) = Inr t \<longleftrightarrow>
      store db (new_transaction db p uid) = None \<and> t = new_transaction db p uid) \<and>
   (fst (create_transaction store db p uid) = Inr t \<longrightarrow>
      txn_owner_id t = uid \<and>
      transactions (snd (create_transaction store db p uid)) = transactions db @ [t]) \<and>
   (fst (create_transaction store db p uid) = Inl e \<longrightarrow>
      snd (create_transaction store db p uid) = db) \<and>
   cat_owner_id (fst (create_category db c uid)) = uid \<and>
   categories (snd (create_category db c uid)) =
     categories db @ [fst (create_category db c uid)] \<and>
   (fst (api_create_transaction store db p current_user) = Inr t \<longrightarrow>
      txn_owner_id t = usr_id current_user \<and>
      last (transactions (snd (api_create_transaction store db p current_user))) = t) \<and>
   cat_owner_id (fst (api_create_category db c current_user)) = usr_id current_user \<and>
   last (categories (snd (api_create_category db c current_user))) =
     fst (api_create_category db c current_user)"
proof -
  have row: "txn_owner_id (new_transaction db p uid) = uid" for uid
    by (simp add: new_transaction_def)
  have created: "fst (create_transaction store db p uid) = Inr t \<longleftrightarrow>
      store db (new_transaction db p uid) = None \<and> t = new_transaction db p uid" for uid
    by (cases "store db (new_transaction db p uid)")
      (auto simp: create_transaction_accepted create_transaction_refused)
  have stored: "txn_owner_id t = uid \<and>
      transactions (snd (create_transaction store db p uid)) = transactions db @ [t]"
    if "fst (create_transaction store db p uid) = Inr t" for uid
    using that created [of uid] by (simp add: create_transaction_accepted row)
  have refused: "snd (create_transaction store db p uid) = db"
    if "fst (create_transaction store db p uid) = Inl e"
    using that by (cases "store db (new_transaction db p uid)")
      (simp_all add: create_transaction_accepted create_transaction_refused)
  have cat: "cat_owner_id (fst (create_category db c uid)) = uid \<and>
      categories (snd (create_category db c uid)) = categories db @ [fst (create_category db c uid)]"
    for uid
    by (simp add: create_category_def Let_def)
  show ?thesis
    using row created stored [of uid] stored [of "usr_id current_user"] refused cat [of uid]
      cat [of "usr_id current_user"]
    by (simp add: api_create_transaction_def api_create_category_def)
qed

theorem create_stamps_owner_witness:
  "fst (create_transaction int64_store ledger (TransactionCreate ''Tea'' 3 None 2) 1) =
     Inr \<lparr>txn_id = 4, txn_title = ''Tea'', txn_amount = 3, txn_type = ''expense'',
          txn_category_id = 2, txn_owner_id = 1\<rparr> \<and>
   transactions (snd (create_transaction int64_store ledger (TransactionCreate ''Tea'' 3 None 2) 1)) =
     [coffee, salary, flat,
      \<lparr>txn_id = 4, txn_title = ''Tea'', txn_amount = 3, txn_type = ''expense'',
       txn_category_id = 2, txn_owner_id = 1\<rparr>] \<and>
   fst (create_transaction int64_store ledger (TransactionCreate ''Tea'' 3 None (2 ^ 63)) 1) =
     Inl OverflowError \<and>
   snd (create_transaction int64_store ledger (TransactionCreate ''Tea'' 3 None (2 ^ 63)) 1) =
     ledger"
proof -
  let ?tea = "\<lparr>txn_id = 4, txn_title = ''Tea'', txn_amount = 3, txn_type = ''expense'',
          txn_category_id = 2, txn_owner_id = 1\<rparr>"
  have accepted: "fst (create_transaction int64_store ledger (TransactionCreate ''Tea'' 3 None 2) 1) =
      Inr ?tea"
    by (simp add: store_eval ledger_defs)
  have refused: "fst (create_transaction int64_store ledger
      (TransactionCreate ''Tea'' 3 None (2 ^ 63)) 1) = Inl OverflowError"
    by (simp add: store_eval ledger_defs)
  have "transactions (snd (create_transaction int64_store ledger
      (TransactionCreate ''Tea'' 3 None 2) 1)) = transactions ledger @ [?tea]"
    using create_stamps_owner [of ledger "TransactionCreate ''Tea'' 3 None 2" 1 int64_store ?tea]
      accepted by blast
  moreover have "snd (create_transaction int64_store ledger
      (TransactionCreate ''Tea'' 3 None (2 ^ 63)) 1) = ledger"
    using create_stamps_owner [of ledger "TransactionCreate ''Tea'' 3 None (2 ^ 63)" 1
        int64_store _ OverflowError] refused by blast
  ultimately show ?thesis
    using accepted refused by (simp add: ledger_def)
qed

text \<open>
  C3. The payload's \<^verbatim>\<open>type\<close> is any string, and \<open>create_transaction\<close> stores it as it is:
  a transaction of type \<^verbatim>\<open>"transfer"\<close> is stored, in the empty database and in the example
  ledger, although the column is documented as \<^verbatim>\<open>"income" or "expense"\<close>.
\<close>

theorem create_transaction_stores_any_type:
  "create_transaction int64_store empty_session
      (TransactionCreate ''Gift'' 20 (Some ''transfer'') 1) 1 =
     (Inr \<lparr>txn_id = 1, txn_title = ''Gift'', txn_amount = 20, txn_type = ''transfer'',
           txn_category_id = 1, txn_owner_id = 1\<rparr>,
      \<lparr>users = [], categories = [],
       transactions = [\<lparr>txn_id = 1, txn_title = ''Gift'', txn_amount = 20,
                        txn_type = ''transfer'', txn_category_id = 1, txn_owner_id = 1\<rparr>]\<rparr>) \<and>
   create_transaction int64_store ledger (TransactionCreate ''Gift'' 20 (Some ''transfer'') 1) 1 =
     (Inr \<lparr>txn_id = 4, txn_title = ''Gift'', txn_amount = 20, txn_type = ''transfer'',
           txn_category_id = 1, txn_owner_id = 1\<rparr>,
      ledger\<lparr>transactions :=
        [coffee, salary, flat,
         \<lparr>txn_id = 4, txn_title = ''Gift'', txn_amount = 20, txn_type = ''transfer'',
          txn_category_id = 1, txn_owner_id = 1\<rparr>]\<rparr>) \<and>
   ''transfer'' \<noteq> ''income'' \<and> ''transfer'' \<noteq> ''expense''"
  by (simp add: store_eval empty_session_def ledger_defs)

section \<open>The report after a create\<close>






lemma create_transaction_fields:
  "txn_category_id (new_transaction db p uid) = tc_category_id p"
  "txn_owner_id (new_transaction db p uid) = uid"
  "txn_type (new_transaction db p uid) = tc_type p"
  "txn_amount (new_transaction db p uid) = tc_amount p"
  by (simp_all add: new_transaction_def)




lemma name_reported_append:
  assumes "c \<in> set (categories db)" and "cat_id c = txn_category_id t"
    and "txn_owner_id t = uid" and "txn_type t = ''expense''"
  shows "cat_name c \<in>
           set (map fst (get_spending_by_category (db\<lparr>transactions := transactions db @ [t]\<rparr>) uid))"
proof -
  have "(c, t) \<in> set (expense_rows (db\<lparr>transactions := transactions db @ [t]\<rparr>) uid)"
    using assms by (simp add: set_expense_rows)
  then show ?thesis
    unfolding report_names by force
qed

lemma report_sums_amounts:
  "get_spending_by_category db uid =
     map (\<lambda>n. (n, sum_list (summed_amounts db uid n)))
       (remdups (map (\<lambda>(c, t). cat_name c) (expense_rows db uid)))"
  by (simp add: get_spending_by_category_def summed_amounts_def Let_def)


lemmas report_eval = get_spending_by_category_def expense_rows_def joined_def Let_def
  create_transaction_def new_transaction_def int64_store_def int64_def TransactionCreate_def
  next_id_def




text \<open>
  C5, as stated, fails: the report groups by name, so a category that no expense refers
  to still has its name in the report when an expense refers to another category of the
  same name.
\<close>

theorem same_name_category_counterexample:
  "groceries \<in> set (categories pantry) \<and> \<not> expense_references pantry 1 groceries \<and>
   cat_name groceries \<in> set (map fst (get_spending_by_category pantry 1))"
  by (simp add: report_eval expense_references_def pantry_def groceries_def restaurants_def
      lunch_def)

text \<open>
  C5, amended. If no expense transaction of the owner refers to any category that has the
  name of \<open>c\<close>, then that name is not in the owner's report.
\<close>

theorem unreferenced_name_absent:
  assumes "\<not> list_ex (\<lambda>c'. cat_name c' = cat_name c \<and> expense_references db owner_id c')
               (categories db)"
  shows "cat_name c \<notin> set (map fst (get_spending_by_category db owner_id))"
proof
  assume "cat_name c \<in> set (map fst (get_spending_by_category db owner_id))"
  then obtain c' t where "(c', t) \<in> set (expense_rows db owner_id)" and "cat_name c' = cat_name c"
    unfolding report_names by auto
  then have "c' \<in> set (categories db)" and "cat_name c' = cat_name c"
    and "expense_references db owner_id c'"
    by (auto simp: set_expense_rows expense_references_def list_ex_iff)
  then show False
    using assms by (auto simp: list_ex_iff)
qed

theorem unreferenced_name_absent_witness:
  "''Food'' \<notin> set (map fst (get_spending_by_category ledger 2))"
proof -
  have "\<not> list_ex (\<lambda>c'. cat_name c' = cat_name food \<and> expense_references ledger 2 c')
           (categories ledger)"
    by (simp add: expense_references_def ledger_defs)
  from unreferenced_name_absent [OF this] show ?thesis
    by (simp add: food_def)
qed

text \<open>
  C10, as stated, fails twice. A store with 64-bit integers refuses a category id of
  \<open>2 ^ 63\<close>: the create raises and stores nothing. And a transaction of kind income that
  Bob creates under Alice's category is stored with her category id, but is not in his
  report.
\<close>

theorem income_not_reported_counterexample:
  "create_transaction int64_store ledger (TransactionCreate ''Pizza'' 8 None (2 ^ 63)) (usr_id bob) =
     (Inl OverflowError, ledger) \<and>
   food \<in> set (categories ledger) \<and> cat_owner_id food \<noteq> usr_id bob \<and>
   fst (create_transaction int64_store ledger
       (TransactionCreate ''Refund'' 5 (Some ''income'') 1) (usr_id bob)) =
     Inr \<lparr>txn_id = 4, txn_title = ''Refund'', txn_amount = 5, txn_type = ''income'',
          txn_category_id = cat_id food, txn_owner_id = usr_id bob\<rparr> \<and>
   cat_name food \<notin> set (map fst (get_spending_by_category
       (snd (create_transaction int64_store ledger
          (TransactionCreate ''Refund'' 5 (Some ''income'') 1) (usr_id bob))) (usr_id bob)))"
  by (simp add: report_eval ledger_defs)

text \<open>
  C10, amended. \<open>create_transaction\<close> makes no check of its own on the category id: the
  row it builds carries the payload's category id as it is, for every owner and every
  id, and the create returns and stores that row exactly when the store accepts it. The
  report filters on the transaction's owner and on the kind, never on the category's
  owner: an expense created with the id of another user's category puts that category's
  name in the creator's report.
\<close>

theorem create_transaction_unchecked_category:
  "txn_category_id (new_transaction db p uid) = tc_category_id p \<and>
   (fst (create_transaction store db p uid) = Inr t \<longleftrightarrow>
      store db (new_transaction db p uid) = None \<and> t = new_transaction db p uid) \<and>
   (create_transaction store db p uid = (Inr t, db') \<longrightarrow>
      txn_category_id t = tc_category_id p \<and> txn_owner_id t = uid \<and>
      transactions db' = transactions db @ [t]) \<and>
   (create_transaction store db p uid = (Inr t, db') \<and> tc_type p = ''expense'' \<and>
    c \<in> set (categories db) \<and> cat_id c = tc_category_id p \<and> cat_owner_id c \<noteq> uid \<longrightarrow>
      cat_name c \<in> set (map fst (get_spending_by_category db' uid)))"
proof (intro conjI impI)
  show "txn_category_id (new_transaction db p uid) = tc_category_id p"
    by (rule create_transaction_fields)
  show "fst (create_transaction store db p uid) = Inr t \<longleftrightarrow>
      store db (new_transaction db p uid) = None \<and> t = new_transaction db p uid"
    by (cases "store db (new_transaction db p uid)")
      (auto simp: create_transaction_accepted create_transaction_refused)
next
  assume "create_transaction store db p uid = (Inr t, db')"
  from create_transaction_Inr [OF this]
  show "txn_category_id t = tc_category_id p" and "txn_owner_id t = uid"
    and "transactions db' = transactions db @ [t]"
    by (simp_all add: create_transaction_fields)
next
  assume a: "create_transaction store db p uid = (Inr t, db') \<and> tc_type p = ''expense'' \<and>
    c \<in> set (categories db) \<and> cat_id c = tc_category_id p \<and> cat_owner_id c \<noteq> uid"
  then have t: "t = new_transaction db p uid"
    and db': "db' = db\<lparr>transactions := transactions db @ [t]\<rparr>"
    using create_transaction_Inr [of store db p uid t db'] by simp_all
  show "cat_name c \<in> set (map fst (get_spending_by_category db' uid))"
    unfolding db'
    by (rule name_reported_append) (use a in \<open>simp_all add: t create_transaction_fields\<close>)
qed

theorem create_transaction_unchecked_category_witness:
  "fst (create_transaction int64_store ledger (TransactionCreate ''Pizza'' 8 None 1) 2) =
     Inr \<lparr>txn_id = 4, txn_title = ''Pizza'', txn_amount = 8, txn_type = ''expense'',
          txn_category_id = 1, txn_owner_id = 2\<rparr> \<and>
   cat_owner_id food = 1 \<and>
   ''Food'' \<in> set (map fst (get_spending_by_category
       (snd (create_transaction int64_store ledger (TransactionCreate ''Pizza'' 8 None 1) 2)) 2))"
proof -
  let ?pizza = "TransactionCreate ''Pizza'' 8 None 1"
  let ?row = "\<lparr>txn_id = 4, txn_title = ''Pizza'', txn_amount = 8, txn_type = ''expense'',
          txn_category_id = 1, txn_owner_id = 2\<rparr>"
  have row: "fst (create_transaction int64_store ledger ?pizza 2) = Inr ?row"
    by (simp add: store_eval ledger_defs)
  then have created: "create_transaction int64_store ledger ?pizza 2 =
      (Inr ?row, snd (create_transaction int64_store ledger ?pizza 2))"
    by (metis prod.collapse)
  have "tc_type ?pizza = ''expense'' \<and> food \<in> set (categories ledger) \<and>
      cat_id food = tc_category_id ?pizza \<and> cat_owner_id food \<noteq> 2"
    by (simp add: TransactionCreate_def ledger_def food_def)
  then have "cat_name food \<in> set (map fst (get_spending_by_category
       (snd (create_transaction int64_store ledger ?pizza 2)) 2))"
    using create_transaction_unchecked_category [where db = ledger and p = ?pizza and uid = 2
        and store = int64_store and t = ?row and c = food
        and db' = "snd (create_transaction int64_store ledger ?pizza 2)"] created
    by blast
  then show ?thesis
    using row by (simp add: food_def)
qed

lemma foreign_key_store_refuses:
  "create_transaction foreign_key_store ledger (TransactionCreate ''Ghost'' 5 None 99) 1 =
     (Inl IntegrityError, ledger)"
  by (simp add: create_transaction_def new_transaction_def foreign_key_store_def int64_def
      TransactionCreate_def Let_def ledger_def food_def rent_def)

end
